theory Spec2Isabelle
  imports Complex_Main "HOL-Library.Word" "HOL-Library.Log_Nat"
begin

section \<open>JavaScript values\<close>

text \<open>
  A JavaScript string is a sequence of UTF-16 code units and \<open>length\<close> counts code
  units. Literals of the source are ASCII; \<open>ascii\<close> writes them as code units.
\<close>

type_synonym code_unit = "16 word"

type_synonym jsstring = "code_unit list"

definition ascii :: "string \<Rightarrow> jsstring" where
  "ascii s = map (\<lambda>c. of_nat (of_char c)) s"

text \<open>
  The values that reach the validator, the model class and the storage adapter: the results
  of \<open>JSON.parse\<close> (null, booleans, numbers, strings, arrays, objects with their keys in
  lookup order) and \<open>undefined\<close>, the value of a missing property. Numbers are rationals:
  every finite double is one, and the code only tests numbers for zero and for sign.
\<close>

datatype jsval =
    JUndefined
  | JNull
  | JBool bool
  | JNum rat
  | JStr jsstring
  | JArr "jsval list"
  | JObj "(jsstring \<times> jsval) list"

text \<open>
  What a \<open>throw\<close> carries. \<open>TypeError\<close> and \<open>SyntaxError\<close> come from the engine
  (a property read on null, a call of something that is no function, \<open>JSON.parse\<close>);
  \<open>StorageError\<close> is whatever \<open>localStorage\<close> throws; \<open>Error m\<close> is
  \<open>new Error(m)\<close> of the source.
\<close>

datatype exn = TypeError | SyntaxError | StorageError | Error string

text \<open>\<open>ToBoolean\<close>: what \<open>!v\<close>, \<open>v || w\<close>, \<open>if (v)\<close> and \<open>Boolean(v)\<close> test.\<close>

fun truthy :: "jsval \<Rightarrow> bool" where
  "truthy JUndefined = False"
| "truthy JNull = False"
| "truthy (JBool b) = b"
| "truthy (JNum n) = (n \<noteq> 0)"
| "truthy (JStr s) = (s \<noteq> [])"
| "truthy (JArr xs) = True"
| "truthy (JObj kvs) = True"

fun typeof :: "jsval \<Rightarrow> string" where
  "typeof JUndefined = ''undefined''"
| "typeof JNull = ''object''"
| "typeof (JBool b) = ''boolean''"
| "typeof (JNum n) = ''number''"
| "typeof (JStr s) = ''string''"
| "typeof (JArr xs) = ''object''"
| "typeof (JObj kvs) = ''object''"

text \<open>
  The four properties the code reads by name. None of them is defined by the prototype of
  a primitive, of an array or of a plain object, so reading one from a number, a boolean,
  a string or an array gives \<open>undefined\<close>, and \<open>in\<close> is true only for an own key of
  an object. Reading a property of \<open>null\<close> or \<open>undefined\<close> throws.
\<close>

datatype field = F_id | F_text | F_completed | F_createdAt

fun fieldName :: "field \<Rightarrow> string" where
  "fieldName F_id = ''id''"
| "fieldName F_text = ''text''"
| "fieldName F_completed = ''completed''"
| "fieldName F_createdAt = ''createdAt''"

fun getField :: "jsval \<Rightarrow> field \<Rightarrow> exn + jsval" where
  "getField JUndefined f = Inl TypeError"
| "getField JNull f = Inl TypeError"
| "getField (JObj kvs) f =
     Inr (case map_of kvs (ascii (fieldName f)) of None \<Rightarrow> JUndefined | Some v \<Rightarrow> v)"
| "getField v f = Inr JUndefined"

fun hasField :: "jsval \<Rightarrow> field \<Rightarrow> bool" where
  "hasField (JObj kvs) f = (map_of kvs (ascii (fieldName f)) \<noteq> None)"
| "hasField v f = False"

subsection \<open>\<open>String.prototype.trim\<close>\<close>

text \<open>
  \<open>trim\<close> removes the code units of ECMAScript's WhiteSpace and LineTerminator
  productions from both ends: tab, LF, VT, FF, CR, space, NBSP, the Unicode space
  separators, LS, PS and the byte order mark.
\<close>

definition isWhiteSpace :: "code_unit \<Rightarrow> bool" where
  "isWhiteSpace c \<longleftrightarrow> c \<in> {0x09, 0x0A, 0x0B, 0x0C, 0x0D, 0x20, 0xA0, 0x1680,
     0x2000, 0x2001, 0x2002, 0x2003, 0x2004, 0x2005, 0x2006, 0x2007, 0x2008, 0x2009, 0x200A,
     0x2028, 0x2029, 0x202F, 0x205F, 0x3000, 0xFEFF}"

definition trim :: "jsstring \<Rightarrow> jsstring" where
  "trim s = rev (dropWhile isWhiteSpace (rev (dropWhile isWhiteSpace s)))"

text \<open>
  The method call \<open>v.trim()\<close> on an arbitrary value: only a string has the method; on
  anything else the call throws a TypeError (no property on null and undefined, not a
  function elsewhere, also for an object parsed from JSON with a key named trim).
\<close>

fun call_trim :: "jsval \<Rightarrow> exn + jsstring" where
  "call_trim (JStr s) = Inr (trim s)"
| "call_trim v = Inl TypeError"

section \<open>TodoItem (models/TodoItem.js)\<close>

text \<open>
  The fields are public and untyped: \<open>fromJSON\<close> stores whatever the record holds, so
  each field is a \<open>jsval\<close>.
\<close>

record TodoItem =
  item_id :: jsval
  item_text :: jsval
  item_completed :: jsval
  item_createdAt :: jsval

text \<open>
  \<open>constructor(text, id = null)\<close>. \<open>now\<close> is the value of \<open>Date.now()\<close> and
  \<open>isoString\<close> the value of \<open>new Date().toISOString()\<close> at the call. A missing argument
  is \<open>null\<close>; \<open>id || Date.now()\<close> takes the clock for every falsy id.
\<close>

definition new_TodoItem :: "rat \<Rightarrow> jsstring \<Rightarrow> jsval \<Rightarrow> jsval \<Rightarrow> TodoItem" where
  "new_TodoItem now isoString text_arg id_arg =
     \<lparr>item_id = (if truthy id_arg then id_arg else JNum now),
      item_text = text_arg,
      item_completed = JBool False,
      item_createdAt = JStr isoString\<rparr>"

definition toggle :: "TodoItem \<Rightarrow> TodoItem" where
  "toggle t = t\<lparr>item_completed := JBool (\<not> truthy (item_completed t))\<rparr>"

definition updateText :: "jsval \<Rightarrow> TodoItem \<Rightarrow> exn + TodoItem" where
  "updateText newText t =
     (case call_trim newText of
        Inl e \<Rightarrow> Inl e
      | Inr s \<Rightarrow> Inr (t\<lparr>item_text := JStr s\<rparr>))"

definition toJSON :: "TodoItem \<Rightarrow> jsval" where
  "toJSON t = JObj [(ascii ''id'', item_id t), (ascii ''text'', item_text t),
                    (ascii ''completed'', item_completed t),
                    (ascii ''createdAt'', item_createdAt t)]"

text \<open>
  \<open>static fromJSON(data)\<close>: the arguments \<open>data.text\<close> and \<open>data.id\<close> are read
  first, then the constructor runs, then \<open>completed\<close> and \<open>createdAt\<close> are overwritten.
\<close>

definition fromJSON :: "rat \<Rightarrow> jsstring \<Rightarrow> jsval \<Rightarrow> exn + TodoItem" where
  "fromJSON now isoString data =
     (case getField data F_text of
        Inl e \<Rightarrow> Inl e
      | Inr tx \<Rightarrow>
     (case getField data F_id of
        Inl e \<Rightarrow> Inl e
      | Inr i \<Rightarrow>
     (let todoItem = new_TodoItem now isoString tx i in
     (case getField data F_completed of
        Inl e \<Rightarrow> Inl e
      | Inr c \<Rightarrow>
     (case getField data F_createdAt of
        Inl e \<Rightarrow> Inl e
      | Inr d \<Rightarrow> Inr (todoItem\<lparr>item_completed := c, item_createdAt := d\<rparr>))))))"

section \<open>TodoValidator (utils/TodoValidator.js)\<close>

record validation =
  isValid :: bool
  error :: "string option"

definition MIN_LENGTH :: nat where
  "MIN_LENGTH = 1"

definition MAX_LENGTH :: nat where
  "MAX_LENGTH = 100"

definition validateText :: "jsval \<Rightarrow> exn + validation" where
  "validateText text_arg =
     (case call_trim text_arg of
        Inl e \<Rightarrow> Inl e
      | Inr trimmedText \<Rightarrow>
          if \<not> truthy (JStr trimmedText) then
            Inr \<lparr>isValid = False, error = Some ''Please enter a task!''\<rparr>
          else if length trimmedText > MAX_LENGTH then
            Inr \<lparr>isValid = False, error = Some ''Task is too long! Maximum 100 characters.''\<rparr>
          else if length trimmedText < MIN_LENGTH then
            Inr \<lparr>isValid = False, error = Some ''Task must have at least one character.''\<rparr>
          else Inr \<lparr>isValid = True, error = None\<rparr>)"

text \<open>\<open>!id || typeof id !== 'number' || id <= 0\<close>; the comparison is reached by numbers only.\<close>

definition validateId :: "jsval \<Rightarrow> validation" where
  "validateId i =
     (if \<not> truthy i \<or> typeof i \<noteq> ''number'' \<or> (case i of JNum n \<Rightarrow> n \<le> 0 | _ \<Rightarrow> False)
      then \<lparr>isValid = False, error = Some ''Invalid todo ID''\<rparr>
      else \<lparr>isValid = True, error = None\<rparr>)"

text \<open>
  \<open>isValidDate\<close> asks the engine: \<open>dateToString s\<close> stands for
  \<open>new Date(s).toString()\<close>, which is the engine's own parser and printer.
\<close>

definition isValidDate :: "(jsstring \<Rightarrow> string) \<Rightarrow> jsstring \<Rightarrow> bool" where
  "isValidDate dateToString dateString \<longleftrightarrow> dateToString dateString \<noteq> ''Invalid Date''"

definition requiredFields :: "field list" where
  "requiredFields = [F_id, F_text, F_completed, F_createdAt]"

definition validateTodoObject :: "(jsstring \<Rightarrow> string) \<Rightarrow> jsval \<Rightarrow> exn + validation" where
  "validateTodoObject dateToString todo =
     (if \<not> truthy todo \<or> typeof todo \<noteq> ''object'' then
        Inr \<lparr>isValid = False, error = Some ''Invalid todo object''\<rparr>
      else
     (case find (\<lambda>f. \<not> hasField todo f) requiredFields of
        Some f \<Rightarrow>
          Inr \<lparr>isValid = False, error = Some (''Missing required field: '' @ fieldName f)\<rparr>
      | None \<Rightarrow>
     (case getField todo F_text of
        Inl e \<Rightarrow> Inl e
      | Inr tx \<Rightarrow>
     (case validateText tx of
        Inl e \<Rightarrow> Inl e
      | Inr textValidation \<Rightarrow>
          if \<not> isValid textValidation then Inr textValidation
          else
     (case getField todo F_id of
        Inl e \<Rightarrow> Inl e
      | Inr i \<Rightarrow>
          if \<not> isValid (validateId i) then Inr (validateId i)
          else
     (case getField todo F_completed of
        Inl e \<Rightarrow> Inl e
      | Inr c \<Rightarrow>
          if typeof c \<noteq> ''boolean'' then
            Inr \<lparr>isValid = False, error = Some ''Completed field must be a boolean''\<rparr>
          else
     (case getField todo F_createdAt of
        Inl e \<Rightarrow> Inl e
      | Inr d \<Rightarrow>
          if typeof d \<noteq> ''string''
             \<or> \<not> (case d of JStr s \<Rightarrow> isValidDate dateToString s | _ \<Rightarrow> False)
          then Inr \<lparr>isValid = False, error = Some ''Invalid createdAt date''\<rparr>
          else Inr \<lparr>isValid = True, error = None\<rparr>)))))))"

section \<open>TodoStorage (services/TodoStorage.js)\<close>

text \<open>
  \<open>loadTodos\<close> of the storage adapter. \<open>parse\<close> is the engine's \<open>JSON.parse\<close>
  and \<open>got\<close> the outcome of \<open>localStorage.getItem(this.storageKey)\<close>: it throws, or
  returns \<open>null\<close> (\<open>None\<close>) or the stored string.

  The callback of \<open>map\<close> reads \<open>data.text\<close>, which throws on a \<open>null\<close> element;
  \<open>map\<close> itself exists on arrays only, so any other parsed value throws a TypeError.
  Every throw lands in the one \<open>catch\<close>, which returns the empty array.
\<close>

definition keepTextBearing :: "jsval \<Rightarrow> exn + jsval" where
  "keepTextBearing data =
     (case getField data F_text of
        Inl e \<Rightarrow> Inl e
      | Inr tx \<Rightarrow> Inr (if tx \<noteq> JUndefined then data else JNull))"

fun mapM :: "('a \<Rightarrow> exn + 'b) \<Rightarrow> 'a list \<Rightarrow> exn + 'b list" where
  "mapM f [] = Inr []"
| "mapM f (x # xs) =
     (case f x of
        Inl e \<Rightarrow> Inl e
      | Inr y \<Rightarrow> (case mapM f xs of Inl e \<Rightarrow> Inl e | Inr ys \<Rightarrow> Inr (y # ys)))"

definition storage_loadTodos ::
  "(jsstring \<Rightarrow> exn + jsval) \<Rightarrow> exn + jsstring option \<Rightarrow> jsval list" where
  "storage_loadTodos parse got =
     (case got of
        Inl e \<Rightarrow> []
      | Inr None \<Rightarrow> []
      | Inr (Some storedData) \<Rightarrow>
          if \<not> truthy (JStr storedData) then []
          else
            (case parse storedData of
               Inl e \<Rightarrow> []
             | Inr (JArr todoData) \<Rightarrow>
                 (case mapM keepTextBearing todoData of
                    Inl e \<Rightarrow> []
                  | Inr kept \<Rightarrow> filter truthy kept)
             | Inr other \<Rightarrow> []))"

section \<open>TodoList, the controller (services/TodoList.js)\<close>

text \<open>
  What the user is shown: \<open>showSuccess\<close>, \<open>showError\<close> and \<open>showInfo\<close> with their
  argument. \<open>showError\<close> receives \<open>validation.error\<close>, which is a string or \<open>null\<close>.
  \<open>ShowImportFailed e\<close> is the \<open>showError\<close> of the import's \<open>catch\<close>, whose text
  is built from the message of the caught \<open>e\<close> (the engine's own words for its errors).
\<close>

datatype notice =
    ShowSuccess string
  | ShowError "string option"
  | ShowInfo string
  | ShowImportFailed exn

text \<open>
  The controller's state and what it reaches: the collection, the value of the input
  element (\<open>None\<close> when the page has no such element), the arrays handed to
  \<open>localStorage.setItem\<close> (as values, before \<open>JSON.stringify\<close>; one entry per write,
  the latest last), the number of renderings and the notifications shown, the latest last.
\<close>

record TodoList =
  todos :: "TodoItem list"
  todoInput :: "jsstring option"
  setItem_calls :: "jsval list"
  renders :: nat
  notices :: "notice list"

definition saveTodos :: "TodoList \<Rightarrow> TodoList" where
  "saveTodos st = st\<lparr>setItem_calls := setItem_calls st @ [JArr (map toJSON (todos st))]\<rparr>"

definition render :: "TodoList \<Rightarrow> TodoList" where
  "render st = st\<lparr>renders := Suc (renders st)\<rparr>"

definition notify :: "notice \<Rightarrow> TodoList \<Rightarrow> TodoList" where
  "notify n st = st\<lparr>notices := notices st @ [n]\<rparr>"

text \<open>\<open>renderer.clearInput()\<close> empties the same element that \<open>todoInput\<close> points to.\<close>

definition clearInput :: "TodoList \<Rightarrow> TodoList" where
  "clearInput st = st\<lparr>todoInput := map_option (\<lambda>v. []) (todoInput st)\<rparr>"

text \<open>
  \<open>addTodo\<close> hands the raw value of the input element both to the validator and to the
  constructor.
\<close>

definition addTodo :: "rat \<Rightarrow> jsstring \<Rightarrow> TodoList \<Rightarrow> exn + TodoList" where
  "addTodo now isoString st =
     (case todoInput st of
        None \<Rightarrow> Inr st
      | Some text_value \<Rightarrow>
          (case validateText (JStr text_value) of
             Inl e \<Rightarrow> Inl e
           | Inr v \<Rightarrow>
               if \<not> isValid v then Inr (notify (ShowError (error v)) st)
               else
                 let todoItem = new_TodoItem now isoString (JStr text_value) JNull;
                     st1 = st\<lparr>todos := todos st @ [todoItem]\<rparr>
                 in Inr (notify (ShowSuccess ''Task added successfully!'')
                          (clearInput (render (saveTodos st1))))))"

text \<open>
  The id arrives as a number (the renderer passes \<open>parseInt\<close> of the row's attribute);
  \<open>todo.id === id\<close> then holds exactly when the stored id is that number.
\<close>

definition findTodoById :: "rat \<Rightarrow> TodoItem list \<Rightarrow> TodoItem option" where
  "findTodoById n ts = find (\<lambda>todo. item_id todo = JNum n) ts"

fun findIndex :: "('a \<Rightarrow> bool) \<Rightarrow> 'a list \<Rightarrow> int" where
  "findIndex P [] = - 1"
| "findIndex P (x # xs) =
     (if P x then 0 else (let r = findIndex P xs in if r = - 1 then - 1 else r + 1))"

definition findTodoIndexById :: "rat \<Rightarrow> TodoItem list \<Rightarrow> int" where
  "findTodoIndexById n ts = findIndex (\<lambda>todo. item_id todo = JNum n) ts"

text \<open>
  \<open>find\<close> returns the first matching element itself, and a method called on it changes
  that element of the array in place.
\<close>

fun mutateFirst :: "('a \<Rightarrow> bool) \<Rightarrow> ('a \<Rightarrow> 'a) \<Rightarrow> 'a list \<Rightarrow> 'a list" where
  "mutateFirst P f [] = []"
| "mutateFirst P f (x # xs) = (if P x then f x # xs else x # mutateFirst P f xs)"

definition toggleTodo :: "rat \<Rightarrow> TodoList \<Rightarrow> TodoList" where
  "toggleTodo n st =
     (case findTodoById n (todos st) of
        None \<Rightarrow> st
      | Some todo \<Rightarrow>
          render (saveTodos
            (st\<lparr>todos := mutateFirst (\<lambda>todo. item_id todo = JNum n) toggle (todos st)\<rparr>)))"

text \<open>\<open>splice(index, 1)\<close> removes the element at \<open>index\<close>.\<close>

definition splice1 :: "int \<Rightarrow> 'a list \<Rightarrow> 'a list" where
  "splice1 i xs = take (nat i) xs @ drop (Suc (nat i)) xs"

definition deleteTodo :: "rat \<Rightarrow> TodoList \<Rightarrow> TodoList" where
  "deleteTodo n st =
     (let index = findTodoIndexById n (todos st) in
      if index > - 1 then
        notify (ShowInfo ''Task deleted!'')
          (render (saveTodos (st\<lparr>todos := splice1 index (todos st)\<rparr>)))
      else st)"

definition updateTodo :: "rat \<Rightarrow> jsval \<Rightarrow> TodoList \<Rightarrow> exn + (bool \<times> TodoList)" where
  "updateTodo n newText st =
     (case validateText newText of
        Inl e \<Rightarrow> Inl e
      | Inr v \<Rightarrow>
          if \<not> isValid v then Inr (False, notify (ShowError (error v)) st)
          else
            (case findTodoById n (todos st) of
               None \<Rightarrow> Inr (False, st)
             | Some todo \<Rightarrow>
                 (case updateText newText todo of
                    Inl e \<Rightarrow> Inl e
                  | Inr todo' \<Rightarrow>
                      Inr (True, render (saveTodos
                        (st\<lparr>todos := mutateFirst (\<lambda>todo. item_id todo = JNum n)
                                         (\<lambda>todo. todo') (todos st)\<rparr>))))))"

definition getCompletedTodos :: "TodoItem list \<Rightarrow> TodoItem list" where
  "getCompletedTodos ts = filter (\<lambda>todo. truthy (item_completed todo)) ts"

definition getIncompleteTodos :: "TodoItem list \<Rightarrow> TodoItem list" where
  "getIncompleteTodos ts = filter (\<lambda>todo. \<not> truthy (item_completed todo)) ts"

text \<open>
  Arithmetic on numbers is IEEE 754 double precision: the exact result, rounded to the
  nearest number with a 53-bit significand, ties to the even significand.
  \<open>binaryExponent x\<close> is the exponent \<open>e\<close> with \<open>2 ^ e \<le> x < 2 ^ (e + 1)\<close>, and
  \<open>2 ^ (e - 52)\<close> is the spacing of the doubles in that binade. The exponent range of
  the format is left out: an array has fewer than \<open>2 ^ 32\<close> elements, so the quotient
  of two lengths and its product with 100 stay far inside the normal range.
\<close>

definition roundHalfEven :: "rat \<Rightarrow> int" where
  "roundHalfEven x =
     (let f = \<lfloor>x\<rfloor>; d = x - of_int f
      in if d < 1 / 2 then f else if d > 1 / 2 then f + 1 else if even f then f else f + 1)"

definition binaryExponent :: "rat \<Rightarrow> int" where
  "binaryExponent x = (if 1 \<le> x then bitlen \<lfloor>x\<rfloor> - 1 else - bitlen (\<lceil>1 / x\<rceil> - 1))"

definition roundToDouble :: "rat \<Rightarrow> rat" where
  "roundToDouble x =
     (if x = 0 then 0
      else let a = \<bar>x\<bar>; ulp = 2 powi (binaryExponent a - 52)
           in sgn x * of_int (roundHalfEven (a / ulp)) * ulp)"

text \<open>The operators \<open>/\<close> and \<open>*\<close> on numbers; \<open>/\<close> is only ever reached with a divisor that is not zero.\<close>

definition double_div :: "rat \<Rightarrow> rat \<Rightarrow> rat" where
  "double_div a b = roundToDouble (a / b)"

definition double_mul :: "rat \<Rightarrow> rat \<Rightarrow> rat" where
  "double_mul a b = roundToDouble (a * b)"

text \<open>
  The three counts are array lengths, which are integers below \<open>2 ^ 32\<close> and so are
  doubles as they stand. The rate is \<open>(completed / total) * 100\<close>, two rounded
  operations.
\<close>

record stats =
  total :: nat
  completed :: nat
  incomplete :: nat
  completionRate :: rat

definition getStats :: "TodoItem list \<Rightarrow> stats" where
  "getStats ts =
     (let total = length ts;
          completed = length (getCompletedTodos ts);
          incomplete = length (getIncompleteTodos ts)
      in \<lparr>total = total, completed = completed, incomplete = incomplete,
          completionRate =
            (if total > 0 then double_mul (double_div (of_nat completed) (of_nat total)) 100
             else 0)\<rparr>)"

text \<open>
  \<open>importTodos\<close>. \<open>parse\<close> is \<open>JSON.parse\<close>, \<open>dateToString\<close> as in
  \<open>isValidDate\<close>, and \<open>clock k\<close> gives the readings of \<open>Date.now()\<close> and of
  \<open>new Date().toISOString()\<close> taken while the record at position \<open>k\<close> is rebuilt.
  \<open>importBody\<close> is the \<open>try\<close> block; the collection is assigned only after every
  record has been rebuilt.
\<close>

fun validateEach :: "(jsstring \<Rightarrow> string) \<Rightarrow> jsval list \<Rightarrow> exn + unit" where
  "validateEach dateToString [] = Inr ()"
| "validateEach dateToString (data # rest) =
     (case validateTodoObject dateToString data of
        Inl e \<Rightarrow> Inl e
      | Inr v \<Rightarrow>
          if \<not> isValid v
          then Inl (Error (''Invalid todo: '' @ (case error v of None \<Rightarrow> ''null'' | Some m \<Rightarrow> m)))
          else validateEach dateToString rest)"

fun fromJSON_each :: "(nat \<Rightarrow> rat \<times> jsstring) \<Rightarrow> nat \<Rightarrow> jsval list \<Rightarrow> exn + TodoItem list" where
  "fromJSON_each clock k [] = Inr []"
| "fromJSON_each clock k (data # rest) =
     (case fromJSON (fst (clock k)) (snd (clock k)) data of
        Inl e \<Rightarrow> Inl e
      | Inr t \<Rightarrow>
          (case fromJSON_each clock (Suc k) rest of
             Inl e \<Rightarrow> Inl e
           | Inr ts \<Rightarrow> Inr (t # ts)))"

definition importBody ::
  "(jsstring \<Rightarrow> exn + jsval) \<Rightarrow> (jsstring \<Rightarrow> string) \<Rightarrow> (nat \<Rightarrow> rat \<times> jsstring) \<Rightarrow>
   jsstring \<Rightarrow> TodoList \<Rightarrow> exn + TodoList" where
  "importBody parse dateToString clock jsonString st =
     (case parse jsonString of
        Inl e \<Rightarrow> Inl e
      | Inr (JArr todoData) \<Rightarrow>
          (case validateEach dateToString todoData of
             Inl e \<Rightarrow> Inl e
           | Inr u \<Rightarrow>
               (case fromJSON_each clock 0 todoData of
                  Inl e \<Rightarrow> Inl e
                | Inr ts \<Rightarrow>
                    Inr (notify (ShowSuccess ''Todos imported successfully!'')
                          (render (saveTodos (st\<lparr>todos := ts\<rparr>))))))
      | Inr other \<Rightarrow> Inl (Error ''Invalid format: expected array''))"

definition importTodos ::
  "(jsstring \<Rightarrow> exn + jsval) \<Rightarrow> (jsstring \<Rightarrow> string) \<Rightarrow> (nat \<Rightarrow> rat \<times> jsstring) \<Rightarrow>
   jsstring \<Rightarrow> TodoList \<Rightarrow> bool \<times> TodoList" where
  "importTodos parse dateToString clock jsonString st =
     (case importBody parse dateToString clock jsonString st of
        Inl e \<Rightarrow> (False, notify (ShowImportFailed e) st)
      | Inr st' \<Rightarrow> (True, st'))"

section \<open>Notions of the specification\<close>

text \<open>
  A text-bearing record: an object with a key \<open>text\<close> whose value is not
  \<open>undefined\<close>. What \<open>JSON.parse\<close> returns never holds \<open>undefined\<close>, so among
  stored data these are the objects that have a key \<open>text\<close>.
\<close>

definition hasText :: "jsval \<Rightarrow> bool" where
  "hasText d =
     (case d of
        JObj kvs \<Rightarrow> (case map_of kvs (ascii ''text'') of None \<Rightarrow> False | Some v \<Rightarrow> v \<noteq> JUndefined)
      | _ \<Rightarrow> False)"

text \<open>
  The imported record: the task whose four fields are the four properties of the parsed
  record, as they stand.
\<close>

definition importedRecord :: "jsval \<Rightarrow> TodoItem" where
  "importedRecord data =
     \<lparr>item_id = (case getField data F_id of Inl e \<Rightarrow> JUndefined | Inr v \<Rightarrow> v),
      item_text = (case getField data F_text of Inl e \<Rightarrow> JUndefined | Inr v \<Rightarrow> v),
      item_completed = (case getField data F_completed of Inl e \<Rightarrow> JUndefined | Inr v \<Rightarrow> v),
      item_createdAt = (case getField data F_createdAt of Inl e \<Rightarrow> JUndefined | Inr v \<Rightarrow> v)\<rparr>"

section \<open>ASCII literals as code units\<close>

lemma code_unit_of_char_inj:
  "(of_nat (of_char c) :: code_unit) = of_nat (of_char d) \<longleftrightarrow> c = d"
proof
  assume eq: "(of_nat (of_char c) :: code_unit) = of_nat (of_char d)"
  have lt: "of_char x < (65536 :: nat)" for x :: char
  proof -
    have "(of_char x :: nat) mod 256 < 256" by (rule mod_less_divisor) simp
    then have "(of_char x :: nat) < 256" by (simp only: of_char_mod_256)
    then show ?thesis by (rule less_trans) simp
  qed
  from eq have "unat (of_nat (of_char c) :: code_unit) = unat (of_nat (of_char d) :: code_unit)"
    by simp
  then have "(of_char c :: nat) = of_char d"
    using lt [of c] lt [of d] by (simp add: unat_of_nat)
  then show "c = d" by simp
qed simp

lemma ascii_eq_iff [simp]: "ascii a = ascii b \<longleftrightarrow> a = b"
proof (induction a arbitrary: b)
  case Nil
  show ?case by (cases b) (simp_all add: ascii_def)
next
  case (Cons x xs)
  show ?case
  proof (cases b)
    case Nil
    then show ?thesis by (simp add: ascii_def)
  next
    case (Cons y ys)
    with Cons.IH [of ys] show ?thesis
      by (simp add: ascii_def code_unit_of_char_inj)
  qed
qed

lemma length_ascii [simp]: "length (ascii s) = length s"
  by (simp add: ascii_def)

lemma ascii_Nil_iff [simp]: "ascii s = [] \<longleftrightarrow> s = []"
  by (simp add: ascii_def)

section \<open>Validation of text\<close>

lemma trim_Nil_iff: "trim t = [] \<longleftrightarrow> (\<forall>c\<in>set t. isWhiteSpace c)"
proof -
  have "trim t = [] \<longleftrightarrow> (\<forall>c\<in>set (dropWhile isWhiteSpace t). isWhiteSpace c)"
    by (simp add: trim_def)
  also have "\<dots> \<longleftrightarrow> dropWhile isWhiteSpace t = []"
  proof (cases "dropWhile isWhiteSpace t")
    case Nil
    then show ?thesis by (simp del: dropWhile_eq_Nil_conv)
  next
    case (Cons x xs)
    then have "\<not> isWhiteSpace x"
      using hd_dropWhile [of isWhiteSpace t] by auto
    with Cons show ?thesis by (auto simp del: dropWhile_eq_Nil_conv)
  qed
  also have "\<dots> \<longleftrightarrow> (\<forall>c\<in>set t. isWhiteSpace c)"
    by simp
  finally show ?thesis .
qed

text \<open>
  C3. On every string \<open>t\<close> the text validator returns a result, never throws, and the
  result is valid exactly when the trimmed input has between 1 and 100 code units. A
  trimmed length of exactly 100 is valid, and an input made of whitespace only (spaces,
  tabs, newlines) is rejected with the message for an empty task.
\<close>

theorem validateText_valid_iff:
  "(\<exists>v. validateText (JStr t) = Inr v
        \<and> (isValid v \<longleftrightarrow> 1 \<le> length (trim t) \<and> length (trim t) \<le> 100))
   \<and> (length (trim t) = 100 \<longrightarrow> validateText (JStr t) = Inr \<lparr>isValid = True, error = None\<rparr>)
   \<and> ((\<forall>c\<in>set t. isWhiteSpace c) \<longrightarrow>
        validateText (JStr t) = Inr \<lparr>isValid = False, error = Some ''Please enter a task!''\<rparr>)"
proof (intro conjI impI)
  show "\<exists>v. validateText (JStr t) = Inr v
        \<and> (isValid v \<longleftrightarrow> 1 \<le> length (trim t) \<and> length (trim t) \<le> 100)"
    by (cases "trim t") (simp_all add: validateText_def MAX_LENGTH_def MIN_LENGTH_def)
next
  assume "length (trim t) = 100"
  then show "validateText (JStr t) = Inr \<lparr>isValid = True, error = None\<rparr>"
    by (cases "trim t") (simp_all add: validateText_def MAX_LENGTH_def MIN_LENGTH_def)
next
  assume "\<forall>c\<in>set t. isWhiteSpace c"
  then have "trim t = []" by (simp add: trim_Nil_iff)
  then show "validateText (JStr t) = Inr \<lparr>isValid = False, error = Some ''Please enter a task!''\<rparr>"
    by (simp add: validateText_def)
qed

theorem validateText_valid_iff_witness:
  "isWhiteSpace 0x09 \<and> isWhiteSpace 0x0A \<and> isWhiteSpace 0x20
   \<and> validateText (JStr [0x09, 0x0A, 0x20]) =
       Inr \<lparr>isValid = False, error = Some ''Please enter a task!''\<rparr>
   \<and> length (trim (replicate 100 (0x61 :: code_unit))) = 100
   \<and> validateText (JStr (replicate 100 0x61)) = Inr \<lparr>isValid = True, error = None\<rparr>"
proof -
  have ws: "\<forall>c\<in>set [0x09, 0x0A, 0x20 :: code_unit]. isWhiteSpace c"
    by (simp add: isWhiteSpace_def)
  have "trim (replicate 100 (0x61 :: code_unit)) = replicate 100 0x61"
    by (simp add: trim_def isWhiteSpace_def)
  then have len: "length (trim (replicate 100 (0x61 :: code_unit))) = 100"
    by simp
  have "isWhiteSpace 0x09 \<and> isWhiteSpace 0x0A \<and> isWhiteSpace 0x20"
    by (simp add: isWhiteSpace_def)
  with ws len validateText_valid_iff [of "[0x09, 0x0A, 0x20]"]
    validateText_valid_iff [of "replicate 100 0x61"]
  show ?thesis by blast
qed

section \<open>Serialization\<close>

lemma getField_toJSON:
  "getField (toJSON t) F_id = Inr (item_id t)"
  "getField (toJSON t) F_text = Inr (item_text t)"
  "getField (toJSON t) F_completed = Inr (item_completed t)"
  "getField (toJSON t) F_createdAt = Inr (item_createdAt t)"
  by (simp_all add: toJSON_def ascii_def)

text \<open>
  A task is built by the constructor, directly or through \<open>fromJSON\<close>, and the
  constructor stores \<open>id || Date.now()\<close>. \<open>Date.now()\<close> is 0 only during the first
  millisecond of 1970, so the id of every task is truthy; nothing in the source assigns
  an id afterwards, and \<open>toggle\<close> and \<open>updateText\<close> leave it alone.
\<close>

lemma new_TodoItem_id_truthy:
  "now \<noteq> 0 \<Longrightarrow> truthy (item_id (new_TodoItem now isoString tx i))"
  by (simp add: new_TodoItem_def)

lemma fromJSON_id_truthy:
  assumes "now \<noteq> 0" and "fromJSON now isoString data = Inr t"
  shows "truthy (item_id t)"
proof -
  from assms(2) obtain tx i where "item_id t = item_id (new_TodoItem now isoString tx i)"
    by (auto simp add: fromJSON_def Let_def split: sum.splits)
  with assms(1) show ?thesis
    by (simp add: new_TodoItem_id_truthy)
qed

lemma toggle_id: "item_id (toggle t) = item_id t"
  by (simp add: toggle_def)

lemma updateText_id: "updateText newText t = Inr t' \<Longrightarrow> item_id t' = item_id t"
  by (auto simp add: updateText_def split: sum.splits)

lemma fromJSON_toJSON_truthy:
  assumes "truthy (item_id t)"
  shows "fromJSON now isoString (toJSON t) = Inr t"
proof -
  from assms have "new_TodoItem now isoString (item_text t) (item_id t) =
      \<lparr>item_id = item_id t, item_text = item_text t, item_completed = JBool False,
       item_createdAt = JStr isoString\<rparr>"
    by (simp add: new_TodoItem_def)
  then show ?thesis
    by (simp add: fromJSON_def getField_toJSON)
qed

text \<open>
  C6. For every task, \<open>fromJSON\<close> after \<open>toJSON\<close> never throws and gives back the
  task, equal in all four fields, whatever the clock reads at the time: the id, the text,
  the completed flag and the creation time are taken from the record as they stand.
  Every task here means every task the code can hold: one the constructor built, one
  \<open>fromJSON\<close> returned, and any of these after \<open>toggle\<close> or \<open>updateText\<close>, the
  clock not being at zero when the task was built. What these have in common, and what
  the round trip needs, is a truthy id.
\<close>

theorem fromJSON_toJSON:
  "(now0 \<noteq> 0 \<longrightarrow>
      fromJSON now isoString (toJSON (new_TodoItem now0 isoString0 tx i))
        = Inr (new_TodoItem now0 isoString0 tx i))
   \<and> (now0 \<noteq> 0 \<and> fromJSON now0 isoString0 data = Inr t0 \<longrightarrow>
      fromJSON now isoString (toJSON t0) = Inr t0)
   \<and> (truthy (item_id t) \<longrightarrow>
      fromJSON now isoString (toJSON t) = Inr t
      \<and> fromJSON now isoString (toJSON (toggle t)) = Inr (toggle t)
      \<and> (updateText newText t = Inr t1 \<longrightarrow> fromJSON now isoString (toJSON t1) = Inr t1))"
proof (intro conjI impI)
  assume "now0 \<noteq> 0"
  then have "truthy (item_id (new_TodoItem now0 isoString0 tx i))"
    by (rule new_TodoItem_id_truthy)
  then show "fromJSON now isoString (toJSON (new_TodoItem now0 isoString0 tx i))
        = Inr (new_TodoItem now0 isoString0 tx i)"
    by (rule fromJSON_toJSON_truthy)
next
  assume "now0 \<noteq> 0 \<and> fromJSON now0 isoString0 data = Inr t0"
  then have "truthy (item_id t0)"
    using fromJSON_id_truthy by blast
  then show "fromJSON now isoString (toJSON t0) = Inr t0"
    by (rule fromJSON_toJSON_truthy)
next
  assume "truthy (item_id t)"
  then show "fromJSON now isoString (toJSON t) = Inr t"
    by (rule fromJSON_toJSON_truthy)
next
  assume "truthy (item_id t)"
  then have "truthy (item_id (toggle t))"
    by (simp add: toggle_id)
  then show "fromJSON now isoString (toJSON (toggle t)) = Inr (toggle t)"
    by (rule fromJSON_toJSON_truthy)
next
  assume "truthy (item_id t)" and "updateText newText t = Inr t1"
  then have "truthy (item_id t1)"
    by (simp add: updateText_id)
  then show "fromJSON now isoString (toJSON t1) = Inr t1"
    by (rule fromJSON_toJSON_truthy)
qed

text \<open>
  A task added at clock reading 1700000000000 and then toggled comes back from the round
  trip, made at a later reading, with its own id and creation time.
\<close>

theorem fromJSON_toJSON_witness:
  "fromJSON 1800000000000 (ascii ''2027-01-15T10:00:00.000Z'')
     (toJSON (new_TodoItem 1700000000000 (ascii ''2024-01-01T00:00:00.000Z'')
                (JStr (ascii ''Buy milk'')) JNull))
   = Inr \<lparr>item_id = JNum 1700000000000, item_text = JStr (ascii ''Buy milk''),
          item_completed = JBool False,
          item_createdAt = JStr (ascii ''2024-01-01T00:00:00.000Z'')\<rparr>
   \<and> fromJSON 1800000000000 (ascii ''2027-01-15T10:00:00.000Z'')
     (toJSON (toggle \<lparr>item_id = JNum 1700000000000, item_text = JStr (ascii ''Buy milk''),
          item_completed = JBool False,
          item_createdAt = JStr (ascii ''2024-01-01T00:00:00.000Z'')\<rparr>))
   = Inr \<lparr>item_id = JNum 1700000000000, item_text = JStr (ascii ''Buy milk''),
          item_completed = JBool True,
          item_createdAt = JStr (ascii ''2024-01-01T00:00:00.000Z'')\<rparr>"
proof -
  let ?t = "\<lparr>item_id = JNum 1700000000000, item_text = JStr (ascii ''Buy milk''),
          item_completed = JBool False,
          item_createdAt = JStr (ascii ''2024-01-01T00:00:00.000Z'')\<rparr>"
  have built: "new_TodoItem 1700000000000 (ascii ''2024-01-01T00:00:00.000Z'')
                (JStr (ascii ''Buy milk'')) JNull = ?t"
    by (simp add: new_TodoItem_def)
  have "(1700000000000 :: rat) \<noteq> 0" by simp
  then have 1: "fromJSON 1800000000000 (ascii ''2027-01-15T10:00:00.000Z'')
      (toJSON (new_TodoItem 1700000000000 (ascii ''2024-01-01T00:00:00.000Z'')
                (JStr (ascii ''Buy milk'')) JNull))
      = Inr (new_TodoItem 1700000000000 (ascii ''2024-01-01T00:00:00.000Z'')
                (JStr (ascii ''Buy milk'')) JNull)"
    using fromJSON_toJSON [of 1700000000000 1800000000000 "ascii ''2027-01-15T10:00:00.000Z''"
        "ascii ''2024-01-01T00:00:00.000Z''" "JStr (ascii ''Buy milk'')" JNull]
    by blast
  have "truthy (item_id ?t)" by simp
  then have 2: "fromJSON 1800000000000 (ascii ''2027-01-15T10:00:00.000Z'') (toJSON (toggle ?t))
      = Inr (toggle ?t)"
    using fromJSON_toJSON [of _ 1800000000000 "ascii ''2027-01-15T10:00:00.000Z''" _ _ _ _ _ ?t]
    by blast
  have "toggle ?t = ?t\<lparr>item_completed := JBool True\<rparr>"
    by (simp add: toggle_def)
  with 1 2 built show ?thesis by simp
qed

section \<open>Statistics\<close>

text \<open>The exponent that \<open>roundToDouble\<close> works with is the binary exponent of its argument.\<close>

lemma binaryExponent_bounds:
  assumes "0 < x"
  shows "2 powi binaryExponent x \<le> x \<and> x < 2 powi (binaryExponent x + 1)"
proof (cases "1 \<le> x")
  case True
  define n where "n = \<lfloor>x\<rfloor>"
  have n: "1 \<le> n" "of_int n \<le> x" "x < of_int n + 1"
    using True floor_correct [of x] by (simp_all add: n_def)
  then have pos: "0 < n" by simp
  from bitlen_bounds [OF pos] have b: "2 ^ nat (bitlen n - 1) \<le> n" "n < 2 ^ nat (bitlen n)"
    by simp_all
  have ge: "1 \<le> bitlen n"
    using pos by (simp add: bitlen_alt_def)
  have e: "binaryExponent x = bitlen n - 1"
    using True by (simp add: binaryExponent_def n_def)
  have "(2::rat) powi (bitlen n - 1) = of_int (2 ^ nat (bitlen n - 1))"
    using ge by (simp add: power_int_def)
  also have "\<dots> \<le> of_int n" using b(1) by (simp only: of_int_le_iff)
  also have "\<dots> \<le> x" by (rule n(2))
  finally have lo: "2 powi (bitlen n - 1) \<le> x" .
  have "n + 1 \<le> 2 ^ nat (bitlen n)" using b(2) by simp
  then have "(of_int (n + 1) :: rat) \<le> of_int (2 ^ nat (bitlen n))"
    by (simp only: of_int_le_iff)
  moreover have "x < of_int (n + 1)" using n(3) by simp
  ultimately have "x < of_int (2 ^ nat (bitlen n))" by (rule less_le_trans [rotated])
  also have "(of_int (2 ^ nat (bitlen n)) :: rat) = 2 powi (bitlen n - 1 + 1)"
    using ge by (simp add: power_int_def)
  finally have hi: "x < 2 powi (bitlen n - 1 + 1)" .
  from lo hi e show ?thesis by simp
next
  case False
  define m where "m = \<lceil>1 / x\<rceil>"
  define k where "k = bitlen (m - 1)"
  have y: "1 < 1 / x" using False assms by simp
  have m: "1 / x \<le> of_int m" "of_int m - 1 < 1 / x"
    using ceiling_correct [of "1 / x"] by (simp_all add: m_def)
  have m2: "2 \<le> m" using y m(1) by linarith
  then have pos: "0 < m - 1" by simp
  from bitlen_bounds [OF pos] have b: "2 ^ nat (k - 1) \<le> m - 1" "m - 1 < 2 ^ nat k"
    by (simp_all add: k_def)
  have ge: "1 \<le> k"
    using pos by (simp add: bitlen_alt_def k_def)
  have e: "binaryExponent x = - k"
    using False by (simp add: binaryExponent_def m_def k_def)
  have "m \<le> 2 ^ nat k" using b(2) by simp
  then have "(of_int m :: rat) \<le> of_int (2 ^ nat k)" by (simp only: of_int_le_iff)
  with m(1) have "1 / x \<le> of_int (2 ^ nat k)" by (rule order_trans)
  also have "(of_int (2 ^ nat k) :: rat) = 2 ^ nat k" by simp
  finally have "1 / x \<le> 2 ^ nat k" .
  then have "1 \<le> 2 ^ nat k * x" using assms by (simp add: field_simps)
  then have "1 / 2 ^ nat k \<le> x" by (simp add: field_simps)
  moreover have "(2::rat) powi (- k) = 1 / 2 ^ nat k"
    using ge by (simp add: power_int_def field_simps)
  ultimately have lo: "2 powi (- k) \<le> x" by simp
  have "(2::rat) ^ nat (k - 1) = of_int (2 ^ nat (k - 1))" by simp
  also have "\<dots> \<le> of_int (m - 1)" using b(1) by (simp only: of_int_le_iff)
  also have "\<dots> = of_int m - 1" by simp
  also have "\<dots> < 1 / x" by (rule m(2))
  finally have "(2::rat) ^ nat (k - 1) < 1 / x" .
  then have "2 ^ nat (k - 1) * x < 1" using assms by (simp add: field_simps)
  then have "x < 1 / 2 ^ nat (k - 1)" by (simp add: field_simps)
  moreover have "(2::rat) powi (- k + 1) = 1 / 2 ^ nat (k - 1)"
  proof -
    have "- k + 1 = - (k - 1)" by simp
    moreover have "(2::rat) powi (- (k - 1)) = 1 / 2 ^ nat (k - 1)"
      using ge by (cases "k = 1") (simp_all add: power_int_def field_simps)
    ultimately show ?thesis by simp
  qed
  ultimately have hi: "x < 2 powi (- k + 1)" by simp
  from lo hi e show ?thesis by simp
qed

text \<open>Rounding to an integer moves a number by at most one half.\<close>

lemma roundHalfEven_nearest: "\<bar>of_int (roundHalfEven x) - x\<bar> \<le> 1 / 2"
proof -
  have "of_int \<lfloor>x\<rfloor> \<le> x" "x < of_int \<lfloor>x\<rfloor> + 1"
    using floor_correct [of x] by simp_all
  then show ?thesis
    by (auto simp add: roundHalfEven_def Let_def abs_le_iff)
qed

text \<open>
  C8. For every collection the total is its length, completed and incomplete add up to
  the total, the completion rate is \<open>(completed / total) * 100\<close> in double precision
  when the total is positive, and 0 when the collection is empty, where nothing is
  divided.
\<close>

theorem getStats_counts:
  "total (getStats ts) = length ts
   \<and> completed (getStats ts) + incomplete (getStats ts) = total (getStats ts)
   \<and> (total (getStats ts) > 0 \<longrightarrow>
        completionRate (getStats ts)
          = double_mul (double_div (of_nat (completed (getStats ts)))
                                   (of_nat (total (getStats ts)))) 100)
   \<and> (total (getStats ts) = 0 \<longrightarrow> completionRate (getStats ts) = 0)"
  by (simp add: getStats_def Let_def getCompletedTodos_def getIncompleteTodos_def
      sum_length_filter_compl)

text \<open>
  One task of three completed gives 33.33333333333333 and eleven of twenty give
  55.00000000000001, the doubles written here as fractions; one of two gives 50.
\<close>

theorem getStats_counts_witness:
  "getStats (replicate 1 \<lparr>item_id = JNum 1, item_text = JStr [], item_completed = JBool True,
                           item_createdAt = JStr []\<rparr>
             @ replicate 2 \<lparr>item_id = JNum 2, item_text = JStr [], item_completed = JBool False,
                             item_createdAt = JStr []\<rparr>)
     = \<lparr>total = 3, completed = 1, incomplete = 2,
        completionRate = 2345624805922133 / 70368744177664\<rparr>
   \<and> getStats (replicate 11 \<lparr>item_id = JNum 1, item_text = JStr [], item_completed = JBool True,
                              item_createdAt = JStr []\<rparr>
               @ replicate 9 \<lparr>item_id = JNum 2, item_text = JStr [], item_completed = JBool False,
                               item_createdAt = JStr []\<rparr>)
     = \<lparr>total = 20, completed = 11, incomplete = 9,
        completionRate = 7740561859543041 / 140737488355328\<rparr>
   \<and> getStats [\<lparr>item_id = JNum 1, item_text = JStr [], item_completed = JBool True,
                 item_createdAt = JStr []\<rparr>,
                \<lparr>item_id = JNum 2, item_text = JStr [], item_completed = JBool False,
                 item_createdAt = JStr []\<rparr>]
     = \<lparr>total = 2, completed = 1, incomplete = 1, completionRate = 50\<rparr>
   \<and> getStats [] = \<lparr>total = 0, completed = 0, incomplete = 0, completionRate = 0\<rparr>"
proof -
  let ?a = "\<lparr>item_id = JNum 1, item_text = JStr [], item_completed = JBool True,
             item_createdAt = JStr []\<rparr>"
  let ?b = "\<lparr>item_id = JNum 2, item_text = JStr [], item_completed = JBool False,
             item_createdAt = JStr []\<rparr>"
  have r3: "double_mul (double_div 1 3) 100 = 2345624805922133 / 70368744177664"
    by code_simp
  have r20: "double_mul (double_div 11 20) 100 = 7740561859543041 / 140737488355328"
    by code_simp
  have r2: "double_mul (double_div 1 2) 100 = 50"
    by code_simp
  have c3: "total (getStats (replicate 1 ?a @ replicate 2 ?b)) = 3"
    "completed (getStats (replicate 1 ?a @ replicate 2 ?b)) = 1"
    "incomplete (getStats (replicate 1 ?a @ replicate 2 ?b)) = 2"
    by (simp_all add: getStats_def Let_def getCompletedTodos_def getIncompleteTodos_def)
  have c20: "total (getStats (replicate 11 ?a @ replicate 9 ?b)) = 20"
    "completed (getStats (replicate 11 ?a @ replicate 9 ?b)) = 11"
    "incomplete (getStats (replicate 11 ?a @ replicate 9 ?b)) = 9"
    by (simp_all add: getStats_def Let_def getCompletedTodos_def getIncompleteTodos_def)
  have c2: "total (getStats [?a, ?b]) = 2" "completed (getStats [?a, ?b]) = 1"
    "incomplete (getStats [?a, ?b]) = 1"
    by (simp_all add: getStats_def Let_def getCompletedTodos_def getIncompleteTodos_def)
  have c0: "total (getStats []) = 0" "completed (getStats []) = 0" "incomplete (getStats []) = 0"
    by (simp_all add: getStats_def Let_def getCompletedTodos_def getIncompleteTodos_def)
  have "completionRate (getStats (replicate 1 ?a @ replicate 2 ?b))
      = 2345624805922133 / 70368744177664"
    using getStats_counts [of "replicate 1 ?a @ replicate 2 ?b"] c3 r3 by simp
  moreover have "completionRate (getStats (replicate 11 ?a @ replicate 9 ?b))
      = 7740561859543041 / 140737488355328"
    using getStats_counts [of "replicate 11 ?a @ replicate 9 ?b"] c20 r20 by simp
  moreover have "completionRate (getStats [?a, ?b]) = 50"
    using getStats_counts [of "[?a, ?b]"] c2 r2 by simp
  moreover have "completionRate (getStats []) = 0"
    using getStats_counts [of "[]"] c0 by simp
  ultimately show ?thesis
    using c3 c20 c2 c0
    by (simp add: stats.equality)
qed

section \<open>Adding a task\<close>

lemma validateText_rejects:
  assumes "length (trim raw) = 0 \<or> length (trim raw) > 100"
  shows "\<exists>m. validateText (JStr raw) = Inr \<lparr>isValid = False, error = Some m\<rparr>"
  using assms
  by (cases "trim raw") (auto simp add: validateText_def MAX_LENGTH_def MIN_LENGTH_def)

lemma validateText_accepts:
  assumes "1 \<le> length (trim raw)" and "length (trim raw) \<le> 100"
  shows "validateText (JStr raw) = Inr \<lparr>isValid = True, error = None\<rparr>"
  using assms
  by (cases "trim raw") (auto simp add: validateText_def MAX_LENGTH_def MIN_LENGTH_def)

text \<open>What an accepted \<open>addTodo\<close> does to the state, field by field.\<close>

lemma addTodo_valid:
  assumes "todoInput st = Some raw"
    and "1 \<le> length (trim raw)" and "length (trim raw) \<le> 100"
  shows "addTodo now isoString st =
     Inr (st\<lparr>todos := todos st @ [\<lparr>item_id = JNum now, item_text = JStr raw,
                                     item_completed = JBool False, item_createdAt = JStr isoString\<rparr>],
             todoInput := Some [],
             setItem_calls := setItem_calls st @ [JArr (map toJSON (todos st @
                 [\<lparr>item_id = JNum now, item_text = JStr raw,
                   item_completed = JBool False, item_createdAt = JStr isoString\<rparr>]))],
             renders := Suc (renders st),
             notices := notices st @ [ShowSuccess ''Task added successfully!'']\<rparr>)"
  using assms validateText_accepts [OF assms(2,3)]
  by (simp add: addTodo_def notify_def clearInput_def render_def saveTodos_def new_TodoItem_def Let_def)

lemma trim_101: "trim (replicate 101 (0x61 :: code_unit)) = replicate 101 0x61"
  by (simp add: trim_def isWhiteSpace_def)

text \<open>
  C4. When the raw input trims to the empty string or to more than 100 code units,
  \<open>addTodo\<close> returns the state it was given with one error notification appended:
  the collection, the writes to storage, the input element and the rendering count are
  all unchanged.
\<close>

theorem addTodo_invalid_unchanged:
  assumes "todoInput st = Some raw"
    and "length (trim raw) = 0 \<or> length (trim raw) > 100"
  shows "\<exists>m. addTodo now isoString st = Inr (st\<lparr>notices := notices st @ [ShowError (Some m)]\<rparr>)"
proof -
  from assms(2) obtain m where "validateText (JStr raw) = Inr \<lparr>isValid = False, error = Some m\<rparr>"
    using validateText_rejects by blast
  with assms(1) have "addTodo now isoString st = Inr (st\<lparr>notices := notices st @ [ShowError (Some m)]\<rparr>)"
    by (simp add: addTodo_def notify_def)
  then show ?thesis ..
qed

theorem addTodo_invalid_unchanged_witness:
  "addTodo 1700000000000 (ascii ''2024-01-01T00:00:00.000Z'')
     \<lparr>todos = [], todoInput = Some (replicate 101 0x61), setItem_calls = [], renders = 0,
      notices = []\<rparr>
   = Inr \<lparr>todos = [], todoInput = Some (replicate 101 0x61), setItem_calls = [], renders = 0,
      notices = [ShowError (Some ''Task is too long! Maximum 100 characters.'')]\<rparr>"
proof -
  let ?st = "\<lparr>todos = [], todoInput = Some (replicate 101 (0x61 :: code_unit)),
               setItem_calls = [], renders = 0, notices = []\<rparr>"
  have "todoInput ?st = Some (replicate 101 0x61)" by simp
  moreover have "length (trim (replicate 101 (0x61 :: code_unit))) = 0
      \<or> length (trim (replicate 101 (0x61 :: code_unit))) > 100"
    by (simp add: trim_101)
  ultimately obtain m where
    m: "addTodo 1700000000000 (ascii ''2024-01-01T00:00:00.000Z'') ?st
        = Inr (?st\<lparr>notices := notices ?st @ [ShowError (Some m)]\<rparr>)"
    using addTodo_invalid_unchanged by blast
  have "addTodo 1700000000000 (ascii ''2024-01-01T00:00:00.000Z'') ?st
        = Inr (?st\<lparr>notices := [ShowError (Some ''Task is too long! Maximum 100 characters.'')]\<rparr>)"
    by (simp add: addTodo_def validateText_def trim_101 MAX_LENGTH_def notify_def)
  with m show ?thesis by simp
qed

text \<open>
  C2. The source's own test expects \<open>'  Test todo with spaces  '\<close> to be stored
  trimmed. \<open>addTodo\<close> validates the trimmed text but constructs the task from the raw
  value: adding \<open>"  Buy milk  "\<close> stores the two leading and the two trailing spaces.
\<close>

theorem addTodo_stores_untrimmed:
  "addTodo 1700000000000 (ascii ''2024-01-01T00:00:00.000Z'')
     \<lparr>todos = [], todoInput = Some (ascii ''  Buy milk  ''), setItem_calls = [], renders = 0,
      notices = []\<rparr>
   = Inr \<lparr>todos = [\<lparr>item_id = JNum 1700000000000, item_text = JStr (ascii ''  Buy milk  ''),
                     item_completed = JBool False,
                     item_createdAt = JStr (ascii ''2024-01-01T00:00:00.000Z'')\<rparr>],
          todoInput = Some [],
          setItem_calls = [JArr [toJSON \<lparr>item_id = JNum 1700000000000,
                     item_text = JStr (ascii ''  Buy milk  ''),
                     item_completed = JBool False,
                     item_createdAt = JStr (ascii ''2024-01-01T00:00:00.000Z'')\<rparr>]],
          renders = 1,
          notices = [ShowSuccess ''Task added successfully!'']\<rparr>
   \<and> trim (ascii ''  Buy milk  '') = ascii ''Buy milk''
   \<and> ascii ''  Buy milk  '' \<noteq> ascii ''Buy milk''"
proof -
  have t: "trim (ascii ''  Buy milk  '') = ascii ''Buy milk''"
    by (simp add: trim_def ascii_def isWhiteSpace_def)
  have l: "length (ascii ''Buy milk'') = 8"
    by (simp add: ascii_def)
  let ?st = "\<lparr>todos = [], todoInput = Some (ascii ''  Buy milk  ''), setItem_calls = [],
               renders = 0, notices = []\<rparr>"
  have "addTodo 1700000000000 (ascii ''2024-01-01T00:00:00.000Z'') ?st = Inr
     (?st\<lparr>todos := todos ?st @ [\<lparr>item_id = JNum 1700000000000, item_text = JStr (ascii ''  Buy milk  ''),
                                     item_completed = JBool False, item_createdAt = JStr (ascii ''2024-01-01T00:00:00.000Z'')\<rparr>],
             todoInput := Some [],
             setItem_calls := setItem_calls ?st @ [JArr (map toJSON (todos ?st @
                 [\<lparr>item_id = JNum 1700000000000, item_text = JStr (ascii ''  Buy milk  ''),
                   item_completed = JBool False, item_createdAt = JStr (ascii ''2024-01-01T00:00:00.000Z'')\<rparr>]))],
             renders := Suc (renders ?st),
             notices := notices ?st @ [ShowSuccess ''Task added successfully!'']\<rparr>)"
    by (rule addTodo_valid) (simp_all add: t l)
  moreover have "ascii ''  Buy milk  '' \<noteq> ascii ''Buy milk''"
    by (simp add: ascii_def)
  ultimately show ?thesis using t by simp
qed

text \<open>
  C5. The source's own test adds two tasks one after the other and expects different
  ids. The id is the clock's reading in milliseconds and nothing else: two calls that
  read the same millisecond store the same id twice.
\<close>

theorem addTodo_same_clock_same_id:
  "(case addTodo 1700000000000 (ascii ''2024-01-01T00:00:00.000Z'')
           \<lparr>todos = [], todoInput = Some (ascii ''First todo''), setItem_calls = [],
            renders = 0, notices = []\<rparr> of
      Inl e \<Rightarrow> None
    | Inr st1 \<Rightarrow>
        (case addTodo 1700000000000 (ascii ''2024-01-01T00:00:00.000Z'')
                (st1\<lparr>todoInput := Some (ascii ''Second todo'')\<rparr>) of
           Inl e \<Rightarrow> None
         | Inr st2 \<Rightarrow> Some (map item_id (todos st2), map item_text (todos st2))))
   = Some ([JNum 1700000000000, JNum 1700000000000],
           [JStr (ascii ''First todo''), JStr (ascii ''Second todo'')])"
proof -
  have t1: "trim (ascii ''First todo'') = ascii ''First todo''"
    by (simp add: trim_def ascii_def isWhiteSpace_def)
  have t2: "trim (ascii ''Second todo'') = ascii ''Second todo''"
    by (simp add: trim_def ascii_def isWhiteSpace_def)
  show ?thesis
    by (simp add: addTodo_valid t1 t2)
qed

section \<open>Looking a task up by id\<close>

lemma findIndex_absent: "(\<forall>x\<in>set xs. \<not> P x) \<Longrightarrow> findIndex P xs = - 1"
  by (induction xs) simp_all

lemma findIndex_first:
  "(\<forall>x\<in>set pre. \<not> P x) \<Longrightarrow> P t \<Longrightarrow> findIndex P (pre @ t # suf) = int (length pre)"
  by (induction pre) (simp_all add: Let_def)

lemma find_first:
  "(\<forall>x\<in>set pre. \<not> P x) \<Longrightarrow> P t \<Longrightarrow> find P (pre @ t # suf) = Some t"
  by (induction pre) simp_all

lemma find_absent: "(\<forall>x\<in>set xs. \<not> P x) \<Longrightarrow> find P xs = None"
  by (induction xs) simp_all

lemma mutateFirst_first:
  "(\<forall>x\<in>set pre. \<not> P x) \<Longrightarrow> P t \<Longrightarrow> mutateFirst P f (pre @ t # suf) = pre @ f t # suf"
  by (induction pre) simp_all

lemma splice1_first: "splice1 (int (length pre)) (pre @ t # suf) = pre @ suf"
  by (simp add: splice1_def)

text \<open>
  C7. When no task of the collection has the id, \<open>toggleTodo\<close> and \<open>deleteTodo\<close>
  return the state they were given: no change to the collection, no write, no rendering,
  no notification, and nothing thrown (both are total). When the collection is
  \<open>pre @ t # suf\<close> with \<open>t\<close> the first task that has the id, \<open>toggleTodo\<close> replaces
  \<open>t\<close> by \<open>t\<close> with its completed flag negated, and \<open>deleteTodo\<close> leaves
  \<open>pre @ suf\<close>; both then write and render, and \<open>deleteTodo\<close> notifies.
\<close>

theorem toggle_delete_by_id:
  "((\<forall>u\<in>set (todos st). item_id u \<noteq> JNum n) \<longrightarrow> toggleTodo n st = st \<and> deleteTodo n st = st)
   \<and> (todos st = pre @ t # suf \<and> (\<forall>u\<in>set pre. item_id u \<noteq> JNum n) \<and> item_id t = JNum n \<longrightarrow>
        toggleTodo n st =
          st\<lparr>todos := pre @ t\<lparr>item_completed := JBool (\<not> truthy (item_completed t))\<rparr> # suf,
             setItem_calls := setItem_calls st @
               [JArr (map toJSON (pre @ t\<lparr>item_completed := JBool (\<not> truthy (item_completed t))\<rparr> # suf))],
             renders := Suc (renders st)\<rparr>
        \<and> deleteTodo n st =
          st\<lparr>todos := pre @ suf,
             setItem_calls := setItem_calls st @ [JArr (map toJSON (pre @ suf))],
             renders := Suc (renders st),
             notices := notices st @ [ShowInfo ''Task deleted!'']\<rparr>)"
proof (intro conjI impI)
  assume absent: "\<forall>u\<in>set (todos st). item_id u \<noteq> JNum n"
  then show "toggleTodo n st = st"
    by (simp add: toggleTodo_def findTodoById_def find_absent)
  from absent show "deleteTodo n st = st"
    by (simp add: deleteTodo_def findTodoIndexById_def findIndex_absent)
next
  assume present: "todos st = pre @ t # suf \<and> (\<forall>u\<in>set pre. item_id u \<noteq> JNum n) \<and> item_id t = JNum n"
  then show "toggleTodo n st =
          st\<lparr>todos := pre @ t\<lparr>item_completed := JBool (\<not> truthy (item_completed t))\<rparr> # suf,
             setItem_calls := setItem_calls st @
               [JArr (map toJSON (pre @ t\<lparr>item_completed := JBool (\<not> truthy (item_completed t))\<rparr> # suf))],
             renders := Suc (renders st)\<rparr>"
    by (simp add: toggleTodo_def findTodoById_def find_first mutateFirst_first toggle_def
        render_def saveTodos_def)
  from present show "deleteTodo n st =
          st\<lparr>todos := pre @ suf,
             setItem_calls := setItem_calls st @ [JArr (map toJSON (pre @ suf))],
             renders := Suc (renders st),
             notices := notices st @ [ShowInfo ''Task deleted!'']\<rparr>"
    by (simp add: deleteTodo_def findTodoIndexById_def findIndex_first splice1_first
        render_def saveTodos_def notify_def Let_def)
qed

theorem toggle_delete_by_id_witness:
  "toggleTodo 99
     \<lparr>todos = [\<lparr>item_id = JNum 1, item_text = JStr (ascii ''a''), item_completed = JBool False,
                item_createdAt = JStr []\<rparr>,
               \<lparr>item_id = JNum 2, item_text = JStr (ascii ''b''), item_completed = JBool False,
                item_createdAt = JStr []\<rparr>],
      todoInput = Some [], setItem_calls = [], renders = 0, notices = []\<rparr>
   = \<lparr>todos = [\<lparr>item_id = JNum 1, item_text = JStr (ascii ''a''), item_completed = JBool False,
                item_createdAt = JStr []\<rparr>,
               \<lparr>item_id = JNum 2, item_text = JStr (ascii ''b''), item_completed = JBool False,
                item_createdAt = JStr []\<rparr>],
      todoInput = Some [], setItem_calls = [], renders = 0, notices = []\<rparr>
   \<and> todos (toggleTodo 2
     \<lparr>todos = [\<lparr>item_id = JNum 1, item_text = JStr (ascii ''a''), item_completed = JBool False,
                item_createdAt = JStr []\<rparr>,
               \<lparr>item_id = JNum 2, item_text = JStr (ascii ''b''), item_completed = JBool False,
                item_createdAt = JStr []\<rparr>],
      todoInput = Some [], setItem_calls = [], renders = 0, notices = []\<rparr>)
   = [\<lparr>item_id = JNum 1, item_text = JStr (ascii ''a''), item_completed = JBool False,
                item_createdAt = JStr []\<rparr>,
               \<lparr>item_id = JNum 2, item_text = JStr (ascii ''b''), item_completed = JBool True,
                item_createdAt = JStr []\<rparr>]
   \<and> todos (deleteTodo 1
     \<lparr>todos = [\<lparr>item_id = JNum 1, item_text = JStr (ascii ''a''), item_completed = JBool False,
                item_createdAt = JStr []\<rparr>,
               \<lparr>item_id = JNum 2, item_text = JStr (ascii ''b''), item_completed = JBool False,
                item_createdAt = JStr []\<rparr>],
      todoInput = Some [], setItem_calls = [], renders = 0, notices = []\<rparr>)
   = [\<lparr>item_id = JNum 2, item_text = JStr (ascii ''b''), item_completed = JBool False,
                item_createdAt = JStr []\<rparr>]"
proof -
  let ?a = "\<lparr>item_id = JNum 1, item_text = JStr (ascii ''a''), item_completed = JBool False,
                item_createdAt = JStr []\<rparr>"
  let ?b = "\<lparr>item_id = JNum 2, item_text = JStr (ascii ''b''), item_completed = JBool False,
                item_createdAt = JStr []\<rparr>"
  let ?st = "\<lparr>todos = [?a, ?b], todoInput = Some [], setItem_calls = [], renders = 0,
               notices = []\<rparr>"
  have "\<forall>u\<in>set (todos ?st). item_id u \<noteq> JNum 99" by simp
  then have 1: "toggleTodo 99 ?st = ?st"
    using toggle_delete_by_id [of ?st 99] by blast
  have "todos ?st = [?a] @ ?b # [] \<and> (\<forall>u\<in>set [?a]. item_id u \<noteq> JNum 2) \<and> item_id ?b = JNum 2"
    by simp
  then have 2: "todos (toggleTodo 2 ?st) = [?a, ?b\<lparr>item_completed := JBool True\<rparr>]"
    using toggle_delete_by_id [of ?st 2 "[?a]" ?b "[]"] by simp
  have "todos ?st = [] @ ?a # [?b] \<and> (\<forall>u\<in>set []. item_id u \<noteq> JNum 1) \<and> item_id ?a = JNum 1"
    by simp
  then have 3: "todos (deleteTodo 1 ?st) = [?b]"
    using toggle_delete_by_id [of ?st 1 "[]" ?a "[?b]"] by simp
  from 1 2 3 show ?thesis by simp
qed

text \<open>
  C10. When \<open>newText\<close> passes the text validation and no task has the id,
  \<open>updateTodo\<close> returns \<open>false\<close> and the state it was given: nothing is written,
  rendered or notified. When \<open>newText\<close> fails the validation it also returns
  \<open>false\<close>, but the state has the validator's error appended to the notifications,
  so the two failures differ in what the user is shown.
\<close>

theorem updateTodo_absent_id:
  "(validateText newText = Inr v \<and> isValid v \<and> (\<forall>u\<in>set (todos st). item_id u \<noteq> JNum n)
      \<longrightarrow> updateTodo n newText st = Inr (False, st))
   \<and> (validateText newText = Inr v \<and> \<not> isValid v
      \<longrightarrow> updateTodo n newText st = Inr (False, st\<lparr>notices := notices st @ [ShowError (error v)]\<rparr>)
          \<and> st\<lparr>notices := notices st @ [ShowError (error v)]\<rparr> \<noteq> st)"
proof (intro conjI impI)
  assume "validateText newText = Inr v \<and> isValid v \<and> (\<forall>u\<in>set (todos st). item_id u \<noteq> JNum n)"
  then show "updateTodo n newText st = Inr (False, st)"
    by (simp add: updateTodo_def findTodoById_def find_absent)
next
  assume "validateText newText = Inr v \<and> \<not> isValid v"
  then show "updateTodo n newText st = Inr (False, st\<lparr>notices := notices st @ [ShowError (error v)]\<rparr>)"
    by (simp add: updateTodo_def notify_def)
next
  have "notices (st\<lparr>notices := notices st @ [ShowError (error v)]\<rparr>) \<noteq> notices st"
    by simp
  then show "st\<lparr>notices := notices st @ [ShowError (error v)]\<rparr> \<noteq> st"
    by metis
qed

theorem updateTodo_absent_id_witness:
  "updateTodo 99 (JStr (ascii ''New text''))
     \<lparr>todos = [\<lparr>item_id = JNum 1, item_text = JStr (ascii ''a''), item_completed = JBool False,
                item_createdAt = JStr []\<rparr>],
      todoInput = Some [], setItem_calls = [], renders = 0, notices = []\<rparr>
   = Inr (False,
     \<lparr>todos = [\<lparr>item_id = JNum 1, item_text = JStr (ascii ''a''), item_completed = JBool False,
                item_createdAt = JStr []\<rparr>],
      todoInput = Some [], setItem_calls = [], renders = 0, notices = []\<rparr>)
   \<and> updateTodo 99 (JStr (ascii ''   ''))
     \<lparr>todos = [\<lparr>item_id = JNum 1, item_text = JStr (ascii ''a''), item_completed = JBool False,
                item_createdAt = JStr []\<rparr>],
      todoInput = Some [], setItem_calls = [], renders = 0, notices = []\<rparr>
   = Inr (False,
     \<lparr>todos = [\<lparr>item_id = JNum 1, item_text = JStr (ascii ''a''), item_completed = JBool False,
                item_createdAt = JStr []\<rparr>],
      todoInput = Some [], setItem_calls = [], renders = 0,
      notices = [ShowError (Some ''Please enter a task!'')]\<rparr>)"
proof -
  let ?a = "\<lparr>item_id = JNum 1, item_text = JStr (ascii ''a''), item_completed = JBool False,
                item_createdAt = JStr []\<rparr>"
  let ?st = "\<lparr>todos = [?a], todoInput = Some [], setItem_calls = [], renders = 0,
               notices = []\<rparr>"
  have t: "trim (ascii ''New text'') = ascii ''New text''" "trim (ascii ''   '') = []"
    by (simp_all add: trim_def ascii_def isWhiteSpace_def)
  have l: "length (ascii ''New text'') = 8"
    by (simp add: ascii_def)
  have v1: "validateText (JStr (ascii ''New text'')) = Inr \<lparr>isValid = True, error = None\<rparr>"
    by (rule validateText_accepts) (simp_all add: t l)
  have v2: "validateText (JStr (ascii ''   '')) =
      Inr \<lparr>isValid = False, error = Some ''Please enter a task!''\<rparr>"
    by (simp add: validateText_def t)
  have 1: "updateTodo 99 (JStr (ascii ''New text'')) ?st = Inr (False, ?st)"
    using updateTodo_absent_id [of "JStr (ascii ''New text'')" "\<lparr>isValid = True, error = None\<rparr>" ?st 99] v1
    by simp
  have 2: "updateTodo 99 (JStr (ascii ''   '')) ?st =
      Inr (False, ?st\<lparr>notices := notices ?st @ [ShowError (Some ''Please enter a task!'')]\<rparr>)"
    using updateTodo_absent_id [of "JStr (ascii ''   '')"
        "\<lparr>isValid = False, error = Some ''Please enter a task!''\<rparr>" ?st 99] v2
    by simp
  from 1 2 show ?thesis by simp
qed

section \<open>Loading from storage\<close>

lemma keepTextBearing_cases:
  "d \<noteq> JNull \<Longrightarrow> d \<noteq> JUndefined \<Longrightarrow>
     keepTextBearing d = Inr (if hasText d then d else JNull)"
  by (cases d) (auto simp add: keepTextBearing_def hasText_def split: option.splits)

lemma hasText_truthy: "hasText d \<Longrightarrow> truthy d"
  by (cases d) (simp_all add: hasText_def)

lemma mapM_keepTextBearing:
  "JNull \<notin> set ds \<Longrightarrow> JUndefined \<notin> set ds \<Longrightarrow>
     mapM keepTextBearing ds = Inr (map (\<lambda>d. if hasText d then d else JNull) ds)"
  by (induction ds) (auto simp add: keepTextBearing_cases)

lemma filter_truthy_kept:
  "filter truthy (map (\<lambda>d. if hasText d then d else JNull) ds) = filter hasText ds"
  by (induction ds) (auto simp add: hasText_truthy)

lemma mapM_keepTextBearing_null:
  "JNull \<in> set ds \<or> JUndefined \<in> set ds \<Longrightarrow> \<exists>e. mapM keepTextBearing ds = Inl e"
proof (induction ds)
  case Nil
  then show ?case by simp
next
  case (Cons d ds)
  show ?case
  proof (cases "keepTextBearing d")
    case (Inl e)
    then show ?thesis by simp
  next
    case (Inr y)
    then have "d \<noteq> JNull" "d \<noteq> JUndefined"
      by (auto simp add: keepTextBearing_def)
    with Cons obtain e where "mapM keepTextBearing ds = Inl e" by auto
    with Inr show ?thesis by simp
  qed
qed

text \<open>
  C9, for arrays without a \<open>null\<close> element. \<open>loadTodos\<close> always returns an array and never throws. It returns
  the empty array when reading the store throws, when the key is absent or holds the
  empty string, when \<open>JSON.parse\<close> throws, and when the parsed value is no array. When the stored string
  parses to an array with no \<open>null\<close> element, the result is that array without the
  records that bear no text, the others as they are and in their order. When the array
  has a \<open>null\<close> element the result is the empty array.
\<close>

theorem storage_loadTodos_cases:
  "storage_loadTodos parse (Inl e) = []
   \<and> storage_loadTodos parse (Inr None) = []
   \<and> storage_loadTodos parse (Inr (Some [])) = []
   \<and> (parse s = Inl e \<longrightarrow> storage_loadTodos parse (Inr (Some s)) = [])
   \<and> (parse s = Inr v \<and> (\<forall>ds. v \<noteq> JArr ds) \<longrightarrow> storage_loadTodos parse (Inr (Some s)) = [])
   \<and> (s \<noteq> [] \<and> parse s = Inr (JArr ds) \<and> JNull \<notin> set ds \<and> JUndefined \<notin> set ds \<longrightarrow>
        storage_loadTodos parse (Inr (Some s)) = filter hasText ds)
   \<and> (parse s = Inr (JArr ds) \<and> (JNull \<in> set ds \<or> JUndefined \<in> set ds) \<longrightarrow>
        storage_loadTodos parse (Inr (Some s)) = [])"
proof (intro conjI impI)
  show "storage_loadTodos parse (Inl e) = []"
    by (simp add: storage_loadTodos_def)
  show "storage_loadTodos parse (Inr None) = []"
    by (simp add: storage_loadTodos_def)
  show "storage_loadTodos parse (Inr (Some [])) = []"
    by (simp add: storage_loadTodos_def)
next
  assume "parse s = Inl e"
  then show "storage_loadTodos parse (Inr (Some s)) = []"
    by (simp add: storage_loadTodos_def)
next
  assume "parse s = Inr v \<and> (\<forall>ds. v \<noteq> JArr ds)"
  then show "storage_loadTodos parse (Inr (Some s)) = []"
    by (cases v) (simp_all add: storage_loadTodos_def)
next
  assume "s \<noteq> [] \<and> parse s = Inr (JArr ds) \<and> JNull \<notin> set ds \<and> JUndefined \<notin> set ds"
  then show "storage_loadTodos parse (Inr (Some s)) = filter hasText ds"
    by (simp add: storage_loadTodos_def mapM_keepTextBearing filter_truthy_kept)
next
  assume a: "parse s = Inr (JArr ds) \<and> (JNull \<in> set ds \<or> JUndefined \<in> set ds)"
  then obtain e' where "mapM keepTextBearing ds = Inl e'"
    using mapM_keepTextBearing_null by blast
  with a show "storage_loadTodos parse (Inr (Some s)) = []"
    by (simp add: storage_loadTodos_def)
qed

theorem storage_loadTodos_cases_witness:
  "storage_loadTodos
     (\<lambda>s. if s = ascii ''[{\"text\":\"a\"},{\"id\":7},5]''
           then Inr (JArr [JObj [(ascii ''text'', JStr (ascii ''a''))],
                           JObj [(ascii ''id'', JNum 7)], JNum 5])
           else Inl SyntaxError)
     (Inr (Some (ascii ''[{\"text\":\"a\"},{\"id\":7},5]'')))
   = [JObj [(ascii ''text'', JStr (ascii ''a''))]]
   \<and> storage_loadTodos (\<lambda>s. Inl SyntaxError) (Inr (Some (ascii ''[{''))) = []
   \<and> storage_loadTodos (\<lambda>s. Inr (JObj [])) (Inr (Some (ascii ''{}''))) = []
   \<and> storage_loadTodos (\<lambda>s. Inr (JArr [JNull])) (Inr (Some (ascii ''[null]''))) = []"
proof -
  let ?s = "ascii ''[{\"text\":\"a\"},{\"id\":7},5]''"
  let ?ds = "[JObj [(ascii ''text'', JStr (ascii ''a''))], JObj [(ascii ''id'', JNum 7)], JNum 5]"
  let ?parse = "\<lambda>s. if s = ?s then Inr (JArr ?ds) else Inl SyntaxError"
  have "?s \<noteq> [] \<and> ?parse ?s = Inr (JArr ?ds) \<and> JNull \<notin> set ?ds \<and> JUndefined \<notin> set ?ds"
    by simp
  then have "storage_loadTodos ?parse (Inr (Some ?s)) = filter hasText ?ds"
    using storage_loadTodos_cases [of ?parse _ ?s _ ?ds] by blast
  moreover have "filter hasText ?ds = [JObj [(ascii ''text'', JStr (ascii ''a''))]]"
    by (simp add: hasText_def)
  moreover have "storage_loadTodos (\<lambda>s. Inl SyntaxError) (Inr (Some (ascii ''[{''))) = []"
    using storage_loadTodos_cases [of "\<lambda>s. Inl SyntaxError" SyntaxError "ascii ''[{''"]
    by simp
  moreover have "storage_loadTodos (\<lambda>s. Inr (JObj [])) (Inr (Some (ascii ''{}''))) = []"
    using storage_loadTodos_cases [of "\<lambda>s. Inr (JObj [])" _ "ascii ''{}''" "JObj []"]
    by simp
  moreover have "storage_loadTodos (\<lambda>s. Inr (JArr [JNull])) (Inr (Some (ascii ''[null]''))) = []"
    using storage_loadTodos_cases [of "\<lambda>s. Inr (JArr [JNull])" _ "ascii ''[null]''" _ "[JNull]"]
    by simp
  ultimately show ?thesis by simp
qed

text \<open>
  The claim as stated fails where a text-bearing record stands beside a \<open>null\<close>: the
  stored string parses to an array, and the record does not pass through.
\<close>

theorem storage_loadTodos_counterexample:
  "storage_loadTodos
     (\<lambda>s. if s = ascii ''[{\"text\":\"a\"},null]''
           then Inr (JArr [JObj [(ascii ''text'', JStr (ascii ''a''))], JNull])
           else Inl SyntaxError)
     (Inr (Some (ascii ''[{\"text\":\"a\"},null]'')))
   = []
   \<and> filter hasText [JObj [(ascii ''text'', JStr (ascii ''a''))], JNull]
     = [JObj [(ascii ''text'', JStr (ascii ''a''))]]"
  by (simp add: storage_loadTodos_def keepTextBearing_def hasText_def)

section \<open>Importing\<close>

lemma validateId_valid: "isValid (validateId i) \<Longrightarrow> truthy i"
  by (simp add: validateId_def split: if_splits)

text \<open>A record that the validator accepts is rebuilt field by field, whatever the clock reads.\<close>

lemma validateTodoObject_valid_fromJSON:
  assumes "validateTodoObject dts d = Inr v" and "isValid v"
  shows "fromJSON now isoString d = Inr (importedRecord d)"
proof (cases d)
  case (JObj kvs)
  from assms have "isValid (validateId (case map_of kvs (ascii ''id'') of None \<Rightarrow> JUndefined | Some x \<Rightarrow> x))"
    unfolding JObj validateTodoObject_def
    by (auto split: if_splits option.splits sum.splits simp: requiredFields_def)
  then have "truthy (case map_of kvs (ascii ''id'') of None \<Rightarrow> JUndefined | Some x \<Rightarrow> x)"
    by (rule validateId_valid)
  then show ?thesis
    by (simp add: JObj fromJSON_def importedRecord_def new_TodoItem_def)
next
  case (JArr xs)
  with assms show ?thesis
    by (auto simp add: validateTodoObject_def requiredFields_def)
qed (use assms in \<open>auto simp add: validateTodoObject_def\<close>)

lemma validateTodoObject_valid_result:
  assumes "validateTodoObject dts d = Inr v" and "isValid v"
  shows "v = \<lparr>isValid = True, error = None\<rparr>"
  using assms unfolding validateTodoObject_def
  by (auto split: if_splits option.splits sum.splits)

lemma validateEach_Inr_iff:
  "validateEach dts ds = Inr u \<longleftrightarrow>
     (\<forall>d\<in>set ds. validateTodoObject dts d = Inr \<lparr>isValid = True, error = None\<rparr>)"
proof (induction ds)
  case Nil
  show ?case by simp
next
  case (Cons d ds)
  show ?case
  proof (cases "validateTodoObject dts d")
    case (Inl e)
    then show ?thesis by simp
  next
    case (Inr v)
    show ?thesis
    proof (cases "isValid v")
      case True
      with Inr have "v = \<lparr>isValid = True, error = None\<rparr>"
        by (rule validateTodoObject_valid_result)
      with Inr True Cons.IH show ?thesis by simp
    next
      case False
      then have "v \<noteq> \<lparr>isValid = True, error = None\<rparr>" by auto
      with Inr False show ?thesis by simp
    qed
  qed
qed

lemma fromJSON_each_valid:
  assumes "\<forall>d\<in>set ds. validateTodoObject dts d = Inr \<lparr>isValid = True, error = None\<rparr>"
  shows "fromJSON_each clock k ds = Inr (map importedRecord ds)"
  using assms
proof (induction ds arbitrary: k)
  case Nil
  show ?case by simp
next
  case (Cons d ds)
  then have "validateTodoObject dts d = Inr \<lparr>isValid = True, error = None\<rparr>" by simp
  then have "fromJSON (fst (clock k)) (snd (clock k)) d = Inr (importedRecord d)"
    by (rule validateTodoObject_valid_fromJSON) simp
  with Cons show ?case by simp
qed

text \<open>
  C1. \<open>importTodos\<close> never throws. When the string parses to an array and the validator
  returns a valid result for every element, it returns \<open>true\<close> and the collection is
  exactly the imported records, in the array's order; the new collection is written and
  rendered and success is notified. In every other case (\<open>JSON.parse\<close> throws, the
  parsed value is no array, or the validator rejects or throws on some element) it
  returns \<open>false\<close> and the state it was given with one failure notification appended:
  the collection is unchanged and nothing is written.
\<close>

theorem importTodos_all_or_nothing:
  "(parse s = Inr (JArr ds)
      \<and> (\<forall>d\<in>set ds. validateTodoObject dts d = Inr \<lparr>isValid = True, error = None\<rparr>)
    \<longrightarrow> importTodos parse dts clock s st =
          (True, st\<lparr>todos := map importedRecord ds,
                    setItem_calls := setItem_calls st @ [JArr (map toJSON (map importedRecord ds))],
                    renders := Suc (renders st),
                    notices := notices st @ [ShowSuccess ''Todos imported successfully!'']\<rparr>))
   \<and> (\<not> (\<exists>ds. parse s = Inr (JArr ds)
          \<and> (\<forall>d\<in>set ds. validateTodoObject dts d = Inr \<lparr>isValid = True, error = None\<rparr>))
    \<longrightarrow> (\<exists>e. importTodos parse dts clock s st =
               (False, st\<lparr>notices := notices st @ [ShowImportFailed e]\<rparr>)))"
proof (intro conjI impI)
  assume ok: "parse s = Inr (JArr ds)
      \<and> (\<forall>d\<in>set ds. validateTodoObject dts d = Inr \<lparr>isValid = True, error = None\<rparr>)"
  then have "validateEach dts ds = Inr ()"
    by (simp add: validateEach_Inr_iff)
  moreover from ok have "fromJSON_each clock 0 ds = Inr (map importedRecord ds)"
    using fromJSON_each_valid [of ds dts] by simp
  ultimately show "importTodos parse dts clock s st =
          (True, st\<lparr>todos := map importedRecord ds,
                    setItem_calls := setItem_calls st @ [JArr (map toJSON (map importedRecord ds))],
                    renders := Suc (renders st),
                    notices := notices st @ [ShowSuccess ''Todos imported successfully!'']\<rparr>)"
    using ok by (simp add: importTodos_def importBody_def notify_def render_def saveTodos_def)
next
  assume bad: "\<not> (\<exists>ds. parse s = Inr (JArr ds)
          \<and> (\<forall>d\<in>set ds. validateTodoObject dts d = Inr \<lparr>isValid = True, error = None\<rparr>))"
  have "\<exists>e. importBody parse dts clock s st = Inl e"
  proof (cases "parse s")
    case (Inl e)
    then show ?thesis by (simp add: importBody_def)
  next
    case (Inr v)
    show ?thesis
    proof (cases v)
      case (JArr ds)
      with Inr bad have "validateEach dts ds \<noteq> Inr ()"
        by (simp add: validateEach_Inr_iff)
      then obtain e where "validateEach dts ds = Inl e"
        by (cases "validateEach dts ds") auto
      with Inr JArr show ?thesis by (simp add: importBody_def)
    qed (use Inr in \<open>simp_all add: importBody_def\<close>)
  qed
  then show "\<exists>e. importTodos parse dts clock s st =
               (False, st\<lparr>notices := notices st @ [ShowImportFailed e]\<rparr>)"
    by (auto simp add: importTodos_def notify_def)
qed

theorem importTodos_all_or_nothing_witness:
  "importTodos
     (\<lambda>s. if s = ascii ''[{\"id\":1,\"text\":\"Buy milk\",\"completed\":false,\"createdAt\":\"2024-01-01T00:00:00.000Z\"}]''
           then Inr (JArr [JObj [(ascii ''id'', JNum 1), (ascii ''text'', JStr (ascii ''Buy milk'')),
                                 (ascii ''completed'', JBool False),
                                 (ascii ''createdAt'', JStr (ascii ''2024-01-01T00:00:00.000Z''))]])
           else if s = ascii ''[{\"id\":1}]'' then Inr (JArr [JObj [(ascii ''id'', JNum 1)]])
           else Inl SyntaxError)
     (\<lambda>s. if s = ascii ''2024-01-01T00:00:00.000Z'' then ''Mon Jan 01 2024 00:00:00 GMT+0000''
           else ''Invalid Date'')
     (\<lambda>k. (1800000000000, ascii ''2027-01-15T10:00:00.000Z''))
     (ascii ''[{\"id\":1,\"text\":\"Buy milk\",\"completed\":false,\"createdAt\":\"2024-01-01T00:00:00.000Z\"}]'')
     \<lparr>todos = [\<lparr>item_id = JNum 5, item_text = JStr (ascii ''old''), item_completed = JBool True,
                item_createdAt = JStr []\<rparr>],
      todoInput = Some [], setItem_calls = [], renders = 0, notices = []\<rparr>
   = (True,
      \<lparr>todos = [\<lparr>item_id = JNum 1, item_text = JStr (ascii ''Buy milk''),
                 item_completed = JBool False,
                 item_createdAt = JStr (ascii ''2024-01-01T00:00:00.000Z'')\<rparr>],
       todoInput = Some [],
       setItem_calls = [JArr [JObj [(ascii ''id'', JNum 1), (ascii ''text'', JStr (ascii ''Buy milk'')),
                                 (ascii ''completed'', JBool False),
                                 (ascii ''createdAt'', JStr (ascii ''2024-01-01T00:00:00.000Z''))]]],
       renders = 1,
       notices = [ShowSuccess ''Todos imported successfully!'']\<rparr>)
   \<and> importTodos
     (\<lambda>s. if s = ascii ''[{\"id\":1,\"text\":\"Buy milk\",\"completed\":false,\"createdAt\":\"2024-01-01T00:00:00.000Z\"}]''
           then Inr (JArr [JObj [(ascii ''id'', JNum 1), (ascii ''text'', JStr (ascii ''Buy milk'')),
                                 (ascii ''completed'', JBool False),
                                 (ascii ''createdAt'', JStr (ascii ''2024-01-01T00:00:00.000Z''))]])
           else if s = ascii ''[{\"id\":1}]'' then Inr (JArr [JObj [(ascii ''id'', JNum 1)]])
           else Inl SyntaxError)
     (\<lambda>s. if s = ascii ''2024-01-01T00:00:00.000Z'' then ''Mon Jan 01 2024 00:00:00 GMT+0000''
           else ''Invalid Date'')
     (\<lambda>k. (1800000000000, ascii ''2027-01-15T10:00:00.000Z''))
     (ascii ''[{\"id\":1}]'')
     \<lparr>todos = [\<lparr>item_id = JNum 5, item_text = JStr (ascii ''old''), item_completed = JBool True,
                item_createdAt = JStr []\<rparr>],
      todoInput = Some [], setItem_calls = [], renders = 0, notices = []\<rparr>
   = (False,
      \<lparr>todos = [\<lparr>item_id = JNum 5, item_text = JStr (ascii ''old''), item_completed = JBool True,
                item_createdAt = JStr []\<rparr>],
       todoInput = Some [], setItem_calls = [], renders = 0,
       notices = [ShowImportFailed (Error ''Invalid todo: Missing required field: text'')]\<rparr>)"
proof -
  let ?good = "ascii ''[{\"id\":1,\"text\":\"Buy milk\",\"completed\":false,\"createdAt\":\"2024-01-01T00:00:00.000Z\"}]''"
  let ?bad = "ascii ''[{\"id\":1}]''"
  let ?rec = "JObj [(ascii ''id'', JNum 1), (ascii ''text'', JStr (ascii ''Buy milk'')),
                    (ascii ''completed'', JBool False),
                    (ascii ''createdAt'', JStr (ascii ''2024-01-01T00:00:00.000Z''))]"
  let ?parse = "\<lambda>s. if s = ?good then Inr (JArr [?rec])
           else if s = ?bad then Inr (JArr [JObj [(ascii ''id'', JNum 1)]])
           else Inl SyntaxError"
  let ?dts = "\<lambda>s. if s = ascii ''2024-01-01T00:00:00.000Z'' then ''Mon Jan 01 2024 00:00:00 GMT+0000''
           else ''Invalid Date''"
  let ?clock = "\<lambda>k::nat. (1800000000000::rat, ascii ''2027-01-15T10:00:00.000Z'')"
  let ?st = "\<lparr>todos = [\<lparr>item_id = JNum 5, item_text = JStr (ascii ''old''), item_completed = JBool True,
                item_createdAt = JStr []\<rparr>],
      todoInput = Some [], setItem_calls = [], renders = 0, notices = []\<rparr>"
  have t: "trim (ascii ''Buy milk'') = ascii ''Buy milk''"
    by (simp add: trim_def ascii_def isWhiteSpace_def)
  have l: "length (ascii ''Buy milk'') = 8"
    by simp
  have vt: "validateText (JStr (ascii ''Buy milk'')) = Inr \<lparr>isValid = True, error = None\<rparr>"
    by (rule validateText_accepts) (simp_all add: t l)
  have valid: "validateTodoObject ?dts ?rec = Inr \<lparr>isValid = True, error = None\<rparr>"
    by (simp add: validateTodoObject_def requiredFields_def vt validateId_def isValidDate_def)
  have rec: "importedRecord ?rec = \<lparr>item_id = JNum 1, item_text = JStr (ascii ''Buy milk''),
                 item_completed = JBool False,
                 item_createdAt = JStr (ascii ''2024-01-01T00:00:00.000Z'')\<rparr>"
    by (simp add: importedRecord_def)
  have p: "?parse ?good = Inr (JArr [?rec])"
    by simp
  have "importTodos ?parse ?dts ?clock ?good ?st =
          (True, ?st\<lparr>todos := map importedRecord [?rec],
                    setItem_calls := setItem_calls ?st @ [JArr (map toJSON (map importedRecord [?rec]))],
                    renders := Suc (renders ?st),
                    notices := notices ?st @ [ShowSuccess ''Todos imported successfully!'']\<rparr>)"
    using importTodos_all_or_nothing [of ?parse ?good "[?rec]" ?dts ?clock ?st] p valid
    by simp
  then have 1: "importTodos ?parse ?dts ?clock ?good ?st =
     (True, \<lparr>todos = [\<lparr>item_id = JNum 1, item_text = JStr (ascii ''Buy milk''),
                 item_completed = JBool False,
                 item_createdAt = JStr (ascii ''2024-01-01T00:00:00.000Z'')\<rparr>],
       todoInput = Some [],
       setItem_calls = [JArr [?rec]],
       renders = 1,
       notices = [ShowSuccess ''Todos imported successfully!'']\<rparr>)"
    by (simp add: rec toJSON_def)
  have 2: "importTodos ?parse ?dts ?clock ?bad ?st =
     (False, ?st\<lparr>notices := [ShowImportFailed (Error ''Invalid todo: Missing required field: text'')]\<rparr>)"
    by (simp add: importTodos_def importBody_def validateTodoObject_def requiredFields_def
        notify_def)
  from 1 2 show ?thesis by simp
qed

end
